theory Spec2Isabelle
  imports Main "HOL-Library.Word"
begin

unbundle bit_operations_syntax

section \<open>The sio2jail default seccomp policy (seccomp/policy/DefaultPolicy.cc)\<close>

text \<open>
  A shallow embedding of \<^verbatim>\<open>DefaultPolicy.cc\<close>: the rule catalog built by the five
  rule-group builders, the trace handlers (the lambdas handed to \<^verbatim>\<open>ActionTrace\<close>), and
  \<^verbatim>\<open>getRules\<close>. The class keeps one member, the vector \<^verbatim>\<open>rules_\<close>; each builder
  appends to it, so a builder is a function from the policy before to the policy after.
\<close>

subsection \<open>Data model\<close>

text \<open>A register value of the tracee and a raw syscall argument: unsigned 64 bit.\<close>

type_synonym reg_t = "64 word"

text \<open>\<^verbatim>\<open>tracer::TraceAction\<close>: the verdict a trace handler returns.\<close>

datatype TraceAction = CONTINUE | KILL

text \<open>
  The tracee as the handlers see it (the class is declared outside \<^verbatim>\<open>DefaultPolicy.cc\<close>):
  they only call \<^verbatim>\<open>getSyscallArgument(i)\<close>, so the tracee is the content of its
  syscall argument slots.
\<close>

record Tracee =
  syscallArguments :: "nat \<Rightarrow> reg_t"

definition getSyscallArgument :: "Tracee \<Rightarrow> nat \<Rightarrow> reg_t" where
  "getSyscallArgument tracee i = syscallArguments tracee i"

text \<open>
  The lambdas of \<^verbatim>\<open>addExecutionControlRules\<close>, one constructor per closure, with the
  captured variables as the constructor's arguments:
  \<^item> \<open>ArchDetectHandler\<close>: the lambda bound to \<^verbatim>\<open>set_thread_area\<close> (lines 47-50), no capture;
  \<^item> \<open>ExecveHandler executed\<close>: the \<^verbatim>\<open>mutable\<close> lambda bound to \<^verbatim>\<open>execve\<close>
    (lines 54-59), which captures \<^verbatim>\<open>executed = false\<close> by value;
  \<^item> \<open>SignalHandler i\<close>: the lambdas bound to \<^verbatim>\<open>kill\<close>, \<^verbatim>\<open>tkill\<close> (lines 66-71,
    \<open>i = 1\<close>) and \<^verbatim>\<open>tgkill\<close> (lines 76-81, \<open>i = 2\<close>); they differ only in the argument
    slot they read.
\<close>

datatype TraceHandler =
    ArchDetectHandler
  | ExecveHandler bool
  | SignalHandler nat

text \<open>
  The actions of \<^verbatim>\<open>seccomp/action\<close>. \<^verbatim>\<open>ActionTrace()\<close> without a handler (the rules
  of \<^verbatim>\<open>exit\<close> and \<^verbatim>\<open>exit_group\<close>) is \<open>ActionTrace None\<close>.
\<close>

datatype SeccompAction =
    ActionAllow
  | ActionErrno int
  | ActionKill
  | ActionTrace "TraceHandler option"

text \<open>
  Modelled from the spec: the filter classes of \<^verbatim>\<open>seccomp/filter\<close> are declared outside
  \<^verbatim>\<open>DefaultPolicy.cc\<close>. A comparison has an argument slot, optionally masked, an
  operator (equal, not-equal, less-than, less-or-equal, greater-than, greater-or-equal) and
  a constant; a predicate is a conjunction of comparisons. The catalog writes
  \<^verbatim>\<open>SyscallArg(i) > c\<close>, \<^verbatim>\<open>SyscallArg(i) >= c\<close>, \<^verbatim>\<open>SyscallArg(i) <= c\<close> and
  \<^verbatim>\<open>(SyscallArg(i) & mask) == c\<close>.
\<close>

datatype SyscallArg =
    SyscallArg nat
  | MaskedArg nat reg_t

datatype SyscallFilter =
    Eq SyscallArg reg_t
  | Ne SyscallArg reg_t
  | Lt SyscallArg reg_t
  | Le SyscallArg reg_t
  | Gt SyscallArg reg_t
  | Ge SyscallArg reg_t
  | And SyscallFilter SyscallFilter

text \<open>\<^verbatim>\<open>SeccompRule(syscallName, action, filter)\<close>; a rule built without a filter has \<open>None\<close>.\<close>

datatype SeccompRule =
  SeccompRule (syscallName: string) (action: SeccompAction) (ruleFilter: "SyscallFilter option")

text \<open>The class: its only data member is \<^verbatim>\<open>rules_\<close>.\<close>

record DefaultPolicy =
  rules :: "SeccompRule list"

subsection \<open>Constants of the system headers (Linux)\<close>

definition EPERM :: int where "EPERM = 1"
definition EBADF :: int where "EBADF = 9"
definition ENOTTY :: int where "ENOTTY = 25"
definition ESPIPE :: int where "ESPIPE = 29"

definition O_RDONLY :: reg_t where "O_RDONLY = 0"
definition O_WRONLY :: reg_t where "O_WRONLY = 1"
definition O_RDWR :: reg_t where "O_RDWR = 2"
definition O_ACCMODE :: reg_t where "O_ACCMODE = 3"

subsection \<open>The builders\<close>

text \<open>\<^verbatim>\<open>rules_.emplace_back(rule)\<close>.\<close>

definition emplace_back :: "SeccompRule \<Rightarrow> DefaultPolicy \<Rightarrow> DefaultPolicy" where
  "emplace_back rule p = p\<lparr>rules := rules p @ [rule]\<rparr>"

text \<open>\<^verbatim>\<open>allowSyscalls\<close> (lines 234-239): one unconditional Allow rule per name, in order.\<close>

definition allowSyscalls :: "string list \<Rightarrow> DefaultPolicy \<Rightarrow> DefaultPolicy" where
  "allowSyscalls syscalls p =
     foldl (\<lambda>q syscall. emplace_back (SeccompRule syscall ActionAllow None) q) p syscalls"

text \<open>\<^verbatim>\<open>addExecutionControlRules(bool allowFork)\<close> (lines 26-103).\<close>

definition addExecutionControlRules :: "bool \<Rightarrow> DefaultPolicy \<Rightarrow> DefaultPolicy" where
  "addExecutionControlRules allowFork p0 =
     (let p = allowSyscalls
                [''restart_syscall'', ''getpriority'', ''setpriority'', ''sigaction'',
                 ''sigaltstack'', ''rt_sigaction'', ''rt_sigprocmask'', ''futex'',
                 ''set_tid_address'', ''set_robust_list'', ''getpid'', ''getrandom'',
                 ''sigaltstack'', ''sigsuspend''] p0;
          p = emplace_back
                (SeccompRule ''set_thread_area'' (ActionTrace (Some ArchDetectHandler)) None) p;
          p = emplace_back
                (SeccompRule ''execve'' (ActionTrace (Some (ExecveHandler False))) None) p;
          p = foldl (\<lambda>q syscall. emplace_back
                (SeccompRule syscall (ActionTrace (Some (SignalHandler 1))) None) q)
                p [''kill'', ''tkill''];
          p = emplace_back
                (SeccompRule ''tgkill'' (ActionTrace (Some (SignalHandler 2))) None) p;
          p = foldl (\<lambda>q syscall. emplace_back
                (SeccompRule syscall (ActionTrace None) None) q)
                p [''exit'', ''exit_group''];
          p = (if allowFork then allowSyscalls [''fork''] p else p);
          p = foldl (\<lambda>q syscall. emplace_back
                (SeccompRule syscall (ActionErrno EPERM) None) q)
                p [''prlimit64'']
      in p)"

text \<open>\<^verbatim>\<open>addMemoryManagementRules\<close> (lines 105-115).\<close>

definition addMemoryManagementRules :: "DefaultPolicy \<Rightarrow> DefaultPolicy" where
  "addMemoryManagementRules p =
     allowSyscalls
       [''brk'', ''mmap'', ''mmap2'', ''munmap'', ''mremap'', ''mprotect'', ''arch_prctl''] p"

text \<open>\<^verbatim>\<open>addSystemInformationRules\<close> (lines 117-135).\<close>

definition addSystemInformationRules :: "DefaultPolicy \<Rightarrow> DefaultPolicy" where
  "addSystemInformationRules p =
     allowSyscalls
       [''getuid'', ''getgid'', ''geteuid'', ''getegid'', ''getrlimit'', ''ugetrlimit'',
        ''getcpu'', ''gettid'', ''uname'', ''olduname'', ''oldolduname'', ''sysinfo'',
        ''clock_gettime'', ''gettimeofday'', ''time''] p"

text \<open>\<^verbatim>\<open>addInputOutputRules\<close> (lines 137-181).\<close>

definition addInputOutputRules :: "DefaultPolicy \<Rightarrow> DefaultPolicy" where
  "addInputOutputRules p0 =
     (let p = foldl (\<lambda>q syscall. emplace_back
                (SeccompRule syscall ActionAllow (Some (Gt (SyscallArg 0) 0))) q)
                p0 [''write'', ''writev''];
          p = emplace_back (SeccompRule ''dup2'' ActionAllow (Some (Ge (SyscallArg 1) 3))) p;
          p = allowSyscalls [''read'', ''readv'', ''dup'', ''fcntl'', ''fcntl64''] p;
          p = emplace_back (SeccompRule ''ioctl'' (ActionErrno ENOTTY) None) p;
          p = foldl (\<lambda>q syscall.
                emplace_back (SeccompRule syscall ActionAllow (Some (Ge (SyscallArg 0) 3)))
                  (emplace_back
                    (SeccompRule syscall (ActionErrno ESPIPE) (Some (Le (SyscallArg 0) 2))) q))
                p [''lseek'', ''_llseek'']
      in p)"

text \<open>\<^verbatim>\<open>addFileSystemAccessRules(bool readOnly)\<close> (lines 183-232).\<close>

definition addFileSystemAccessRules :: "bool \<Rightarrow> DefaultPolicy \<Rightarrow> DefaultPolicy" where
  "addFileSystemAccessRules readOnly p0 =
     (let p = allowSyscalls
                [''stat'', ''stat64'', ''fstat'', ''fstat64'', ''lstat'', ''lstat64'',
                 ''listxattr'', ''llistxattr'', ''flistxattr'', ''readlink'', ''access'',
                 ''getdents''] p0;
          p = emplace_back (SeccompRule ''close'' ActionAllow (Some (Ge (SyscallArg 0) 3))) p
      in if readOnly then
           (let p = emplace_back
                      (SeccompRule ''open'' ActionAllow (Some (Eq (MaskedArg 1 O_RDWR) 0))) p
            in foldl (\<lambda>q syscall. emplace_back
                      (SeccompRule syscall (ActionErrno EPERM) None) q)
                 p [''unlink'', ''unlinkat'', ''symlink'', ''mkdir'', ''fsetxattr''])
         else allowSyscalls [''open'', ''unlink'', ''unlinkat'', ''symlink'', ''mkdir''] p)"

text \<open>
  The constructor (lines 14-20) runs the five builders on the empty vector, in this order.
  It calls \<^verbatim>\<open>addExecutionControlRules()\<close> and \<^verbatim>\<open>addFileSystemAccessRules()\<close>
  with their default arguments, which the class declaration in \<^verbatim>\<open>DefaultPolicy.h\<close>
  gives; here they are the two parameters \<open>allowFork\<close> and \<open>readOnly\<close>.
\<close>

definition DefaultPolicy :: "bool \<Rightarrow> bool \<Rightarrow> DefaultPolicy" where
  "DefaultPolicy allowFork readOnly =
     (let p = \<lparr>rules = []\<rparr>;
          p = addExecutionControlRules allowFork p;
          p = addMemoryManagementRules p;
          p = addSystemInformationRules p;
          p = addFileSystemAccessRules readOnly p;
          p = addInputOutputRules p
      in p)"

text \<open>\<^verbatim>\<open>getRules() const\<close> (lines 22-24): a read of \<^verbatim>\<open>rules_\<close>.\<close>

definition getRules :: "DefaultPolicy \<Rightarrow> SeccompRule list" where
  "getRules p = rules p"

subsection \<open>The trace handlers\<close>

text \<open>
  One call of a handler on a tracee: the verdict it returns and the closure after the call
  (only the \<^verbatim>\<open>execve\<close> lambda writes its capture). \<^verbatim>\<open>isSignalValid\<close> is a helper
  declared outside \<^verbatim>\<open>DefaultPolicy.cc\<close>; it is the parameter \<open>isSignalValid\<close>.
\<close>

fun callHandler ::
  "(reg_t \<Rightarrow> bool) \<Rightarrow> TraceHandler \<Rightarrow> Tracee \<Rightarrow> TraceAction \<times> TraceHandler" where
  "callHandler isSignalValid ArchDetectHandler tracee = (CONTINUE, ArchDetectHandler)"
| "callHandler isSignalValid (ExecveHandler executed) tracee =
     (if executed then (KILL, ExecveHandler executed)
      else (CONTINUE, ExecveHandler True))"
| "callHandler isSignalValid (SignalHandler i) tracee =
     (if isSignalValid (getSyscallArgument tracee i) then (CONTINUE, SignalHandler i)
      else (KILL, SignalHandler i))"

text \<open>
  The verdicts of successive calls of one handler instance, one call per tracee of the
  list, the closure threaded from each call to the next.
\<close>

fun invocations ::
  "(reg_t \<Rightarrow> bool) \<Rightarrow> TraceHandler \<Rightarrow> Tracee list \<Rightarrow> TraceAction list" where
  "invocations isSignalValid h [] = []"
| "invocations isSignalValid h (tracee # tracees) =
     fst (callHandler isSignalValid h tracee)
       # invocations isSignalValid (snd (callHandler isSignalValid h tracee)) tracees"

text \<open>The rules registered for one syscall name, in registration order.\<close>

definition rulesFor :: "string \<Rightarrow> SeccompRule list \<Rightarrow> SeccompRule list" where
  "rulesFor name rs = filter (\<lambda>r. syscallName r = name) rs"

text \<open>
  What is left of a rule when the captured state of its handler is set back to its initial
  value: the syscall name, the filter, the action and the handler's code stay.
\<close>

fun resetHandler :: "TraceHandler \<Rightarrow> TraceHandler" where
  "resetHandler (ExecveHandler executed) = ExecveHandler False"
| "resetHandler h = h"

fun resetRule :: "SeccompRule \<Rightarrow> SeccompRule" where
  "resetRule (SeccompRule name (ActionTrace (Some h)) f) =
     SeccompRule name (ActionTrace (Some (resetHandler h))) f"
| "resetRule r = r"

text \<open>
  A rule after its handler has been called once on a tracee: the closure lives inside the
  \<^verbatim>\<open>ActionTrace\<close> of the rule, so the call leaves the rule with the closure as the call
  left it. A rule without a handler is not touched.
\<close>

fun invokeRule :: "(reg_t \<Rightarrow> bool) \<Rightarrow> Tracee \<Rightarrow> SeccompRule \<Rightarrow> SeccompRule" where
  "invokeRule isSignalValid tracee (SeccompRule name (ActionTrace (Some h)) f) =
     SeccompRule name (ActionTrace (Some (snd (callHandler isSignalValid h tracee)))) f"
| "invokeRule isSignalValid tracee r = r"

text \<open>
  What can happen to a constructed policy: a call of \<^verbatim>\<open>getRules\<close>, or a trap that runs
  the handler of the rule at some position of the vector on some tracee. Which rule a trap
  is dispatched to is the supervisor's business, outside \<^verbatim>\<open>DefaultPolicy.cc\<close>; here any
  position may be named, and a position beyond the vector does nothing.
\<close>

datatype Operation = GetRules | Trap nat Tracee

fun perform :: "(reg_t \<Rightarrow> bool) \<Rightarrow> DefaultPolicy \<Rightarrow> Operation \<Rightarrow> DefaultPolicy" where
  "perform isSignalValid p GetRules = p"
| "perform isSignalValid p (Trap i tracee) =
     (if i < length (rules p)
      then p\<lparr>rules := (rules p)[i := invokeRule isSignalValid tracee (rules p ! i)]\<rparr>
      else p)"

definition performAll ::
  "(reg_t \<Rightarrow> bool) \<Rightarrow> DefaultPolicy \<Rightarrow> Operation list \<Rightarrow> DefaultPolicy" where
  "performAll isSignalValid p ops = foldl (perform isSignalValid) p ops"

subsection \<open>The rule groups\<close>

text \<open>The rules each builder adds: what it leaves in an empty vector.\<close>

definition executionControlRules :: "bool \<Rightarrow> SeccompRule list" where
  "executionControlRules allowFork = rules (addExecutionControlRules allowFork \<lparr>rules = []\<rparr>)"

definition memoryManagementRules :: "SeccompRule list" where
  "memoryManagementRules = rules (addMemoryManagementRules \<lparr>rules = []\<rparr>)"

definition systemInformationRules :: "SeccompRule list" where
  "systemInformationRules = rules (addSystemInformationRules \<lparr>rules = []\<rparr>)"

definition fileSystemAccessRules :: "bool \<Rightarrow> SeccompRule list" where
  "fileSystemAccessRules readOnly = rules (addFileSystemAccessRules readOnly \<lparr>rules = []\<rparr>)"

definition inputOutputRules :: "SeccompRule list" where
  "inputOutputRules = rules (addInputOutputRules \<lparr>rules = []\<rparr>)"

subsection \<open>Evaluation of a policy on a syscall\<close>

text \<open>
  Modelled from the spec: the engine that evaluates filters and rules (the filter compiler
  and the supervisor) is outside \<^verbatim>\<open>DefaultPolicy.cc\<close>. A comparison reads one argument
  slot as an unsigned 64-bit value, optionally masked (\<open>(arg & mask) == value\<close>); a
  predicate is a conjunction of comparisons.
\<close>

type_synonym SyscallArgs = "nat \<Rightarrow> reg_t"

fun evalArg :: "SyscallArg \<Rightarrow> SyscallArgs \<Rightarrow> reg_t" where
  "evalArg (SyscallArg i) args = args i"
| "evalArg (MaskedArg i m) args = args i AND m"

fun evalFilter :: "SyscallFilter \<Rightarrow> SyscallArgs \<Rightarrow> bool" where
  "evalFilter (Eq a v) args = (evalArg a args = v)"
| "evalFilter (Ne a v) args = (evalArg a args \<noteq> v)"
| "evalFilter (Lt a v) args = (evalArg a args < v)"
| "evalFilter (Le a v) args = (evalArg a args \<le> v)"
| "evalFilter (Gt a v) args = (evalArg a args > v)"
| "evalFilter (Ge a v) args = (evalArg a args \<ge> v)"
| "evalFilter (And f g) args = (evalFilter f args \<and> evalFilter g args)"

text \<open>
  Modelled from the spec: a rule matches an invocation of its own syscall when it has no
  predicate or its predicate holds of the arguments.
\<close>

definition matches :: "SeccompRule \<Rightarrow> string \<Rightarrow> SyscallArgs \<Rightarrow> bool" where
  "matches r name args =
     (syscallName r = name \<and>
      (case ruleFilter r of None \<Rightarrow> True | Some f \<Rightarrow> evalFilter f args))"

text \<open>
  Modelled from the spec: evaluation is first-match-wins in registration order; the default
  action applies to an invocation that no rule matches.
\<close>

fun evaluate ::
  "SeccompRule list \<Rightarrow> SeccompAction \<Rightarrow> string \<Rightarrow> SyscallArgs \<Rightarrow> SeccompAction" where
  "evaluate [] defaultAction name args = defaultAction"
| "evaluate (r # rs) defaultAction name args =
     (if matches r name args then action r else evaluate rs defaultAction name args)"

text \<open>
  Modelled from the spec: what the caller observes of an action. Allow lets the syscall
  proceed; DenyWithError prevents it from executing and the caller sees it fail with the
  code; Kill terminates the process; Trap suspends the syscall for the supervisor.
\<close>

datatype Outcome = Proceeds | FailsWith int | Terminated | Suspended

fun outcome :: "SeccompAction \<Rightarrow> Outcome" where
  "outcome ActionAllow = Proceeds"
| "outcome (ActionErrno code) = FailsWith code"
| "outcome ActionKill = Terminated"
| "outcome (ActionTrace h) = Suspended"

subsection \<open>Concrete inputs\<close>

text \<open>Argument slots given as a list; a slot beyond the list reads 0.\<close>

definition argsOf :: "reg_t list \<Rightarrow> SyscallArgs" where
  "argsOf xs i = (if i < length xs then xs ! i else 0)"

definition traceeOf :: "reg_t list \<Rightarrow> Tracee" where
  "traceeOf xs = \<lparr>syscallArguments = argsOf xs\<rparr>"

text \<open>
  An instance of the signal check for concrete examples (signal numbers up to 64 pass);
  the theorems hold for every check.
\<close>

definition signalUpTo64 :: "reg_t \<Rightarrow> bool" where
  "signalUpTo64 s = (s \<le> 64)"

section \<open>Properties\<close>

subsection \<open>What the builders append\<close>

lemma rules_emplace_back: "rules (emplace_back r p) = rules p @ [r]"
  by (simp add: emplace_back_def)

lemma rules_foldl_emplace_back:
  "rules (foldl (\<lambda>q s. emplace_back (f s) q) p ss) = rules p @ map f ss"
  by (induction ss arbitrary: p) (simp_all add: rules_emplace_back)

lemma rules_allowSyscalls:
  "rules (allowSyscalls ss p) = rules p @ map (\<lambda>s. SeccompRule s ActionAllow None) ss"
  unfolding allowSyscalls_def by (rule rules_foldl_emplace_back)

lemma rules_addExecutionControlRules:
  "rules (addExecutionControlRules af p) = rules p @ executionControlRules af"
  by (simp add: executionControlRules_def addExecutionControlRules_def Let_def
      rules_allowSyscalls rules_foldl_emplace_back rules_emplace_back)

lemma rules_addMemoryManagementRules:
  "rules (addMemoryManagementRules p) = rules p @ memoryManagementRules"
  by (simp add: memoryManagementRules_def addMemoryManagementRules_def rules_allowSyscalls)

lemma rules_addSystemInformationRules:
  "rules (addSystemInformationRules p) = rules p @ systemInformationRules"
  by (simp add: systemInformationRules_def addSystemInformationRules_def rules_allowSyscalls)

lemma rules_addFileSystemAccessRules:
  "rules (addFileSystemAccessRules ro p) = rules p @ fileSystemAccessRules ro"
  by (simp add: fileSystemAccessRules_def addFileSystemAccessRules_def Let_def
      rules_allowSyscalls rules_foldl_emplace_back rules_emplace_back)

lemma rules_addInputOutputRules:
  "rules (addInputOutputRules p) = rules p @ inputOutputRules"
  by (simp add: inputOutputRules_def addInputOutputRules_def Let_def
      rules_allowSyscalls rules_foldl_emplace_back rules_emplace_back)

lemma getRules_DefaultPolicy:
  "getRules (DefaultPolicy af ro) =
     executionControlRules af @ memoryManagementRules @ systemInformationRules
       @ fileSystemAccessRules ro @ inputOutputRules"
  by (simp add: getRules_def DefaultPolicy_def Let_def rules_addExecutionControlRules
      rules_addMemoryManagementRules rules_addSystemInformationRules
      rules_addFileSystemAccessRules rules_addInputOutputRules)

lemma executionControlRules_eq:
  "executionControlRules af =
     map (\<lambda>s. SeccompRule s ActionAllow None)
       [''restart_syscall'', ''getpriority'', ''setpriority'', ''sigaction'',
        ''sigaltstack'', ''rt_sigaction'', ''rt_sigprocmask'', ''futex'',
        ''set_tid_address'', ''set_robust_list'', ''getpid'', ''getrandom'',
        ''sigaltstack'', ''sigsuspend'']
     @ [SeccompRule ''set_thread_area'' (ActionTrace (Some ArchDetectHandler)) None,
        SeccompRule ''execve'' (ActionTrace (Some (ExecveHandler False))) None,
        SeccompRule ''kill'' (ActionTrace (Some (SignalHandler 1))) None,
        SeccompRule ''tkill'' (ActionTrace (Some (SignalHandler 1))) None,
        SeccompRule ''tgkill'' (ActionTrace (Some (SignalHandler 2))) None,
        SeccompRule ''exit'' (ActionTrace None) None,
        SeccompRule ''exit_group'' (ActionTrace None) None]
     @ (if af then [SeccompRule ''fork'' ActionAllow None] else [])
     @ [SeccompRule ''prlimit64'' (ActionErrno EPERM) None]"
  by (simp add: executionControlRules_def addExecutionControlRules_def Let_def
      rules_allowSyscalls rules_foldl_emplace_back rules_emplace_back)

lemma fileSystemAccessRules_eq:
  "fileSystemAccessRules ro =
     map (\<lambda>s. SeccompRule s ActionAllow None)
       [''stat'', ''stat64'', ''fstat'', ''fstat64'', ''lstat'', ''lstat64'',
        ''listxattr'', ''llistxattr'', ''flistxattr'', ''readlink'', ''access'', ''getdents'']
     @ [SeccompRule ''close'' ActionAllow (Some (Ge (SyscallArg 0) 3))]
     @ (if ro then
          SeccompRule ''open'' ActionAllow (Some (Eq (MaskedArg 1 O_RDWR) 0))
          # map (\<lambda>s. SeccompRule s (ActionErrno EPERM) None)
              [''unlink'', ''unlinkat'', ''symlink'', ''mkdir'', ''fsetxattr'']
        else map (\<lambda>s. SeccompRule s ActionAllow None)
              [''open'', ''unlink'', ''unlinkat'', ''symlink'', ''mkdir''])"
  by (simp add: fileSystemAccessRules_def addFileSystemAccessRules_def Let_def
      rules_allowSyscalls rules_foldl_emplace_back rules_emplace_back)

lemma inputOutputRules_eq:
  "inputOutputRules =
     [SeccompRule ''write'' ActionAllow (Some (Gt (SyscallArg 0) 0)),
      SeccompRule ''writev'' ActionAllow (Some (Gt (SyscallArg 0) 0)),
      SeccompRule ''dup2'' ActionAllow (Some (Ge (SyscallArg 1) 3)),
      SeccompRule ''read'' ActionAllow None,
      SeccompRule ''readv'' ActionAllow None,
      SeccompRule ''dup'' ActionAllow None,
      SeccompRule ''fcntl'' ActionAllow None,
      SeccompRule ''fcntl64'' ActionAllow None,
      SeccompRule ''ioctl'' (ActionErrno ENOTTY) None,
      SeccompRule ''lseek'' (ActionErrno ESPIPE) (Some (Le (SyscallArg 0) 2)),
      SeccompRule ''lseek'' ActionAllow (Some (Ge (SyscallArg 0) 3)),
      SeccompRule ''_llseek'' (ActionErrno ESPIPE) (Some (Le (SyscallArg 0) 2)),
      SeccompRule ''_llseek'' ActionAllow (Some (Ge (SyscallArg 0) 3))]"
  by (simp add: inputOutputRules_def addInputOutputRules_def Let_def
      rules_allowSyscalls rules_foldl_emplace_back rules_emplace_back)

lemma memoryManagementRules_eq:
  "memoryManagementRules = map (\<lambda>s. SeccompRule s ActionAllow None)
     [''brk'', ''mmap'', ''mmap2'', ''munmap'', ''mremap'', ''mprotect'', ''arch_prctl'']"
  by (simp add: memoryManagementRules_def addMemoryManagementRules_def rules_allowSyscalls)

lemma systemInformationRules_eq:
  "systemInformationRules = map (\<lambda>s. SeccompRule s ActionAllow None)
       [''getuid'', ''getgid'', ''geteuid'', ''getegid'', ''getrlimit'', ''ugetrlimit'',
        ''getcpu'', ''gettid'', ''uname'', ''olduname'', ''oldolduname'', ''sysinfo'',
        ''clock_gettime'', ''gettimeofday'', ''time'']"
  by (simp add: systemInformationRules_def addSystemInformationRules_def rules_allowSyscalls)

lemma rulesFor_execve:
  "rulesFor ''execve'' (getRules (DefaultPolicy af ro)) =
     [SeccompRule ''execve'' (ActionTrace (Some (ExecveHandler False))) None]"
  by (simp add: getRules_DefaultPolicy rulesFor_def executionControlRules_eq
      memoryManagementRules_eq systemInformationRules_eq fileSystemAccessRules_eq
      inputOutputRules_eq)

subsection \<open>Handlers, evaluation and the rules of single syscalls\<close>

lemma invocations_executed:
  "invocations v (ExecveHandler True) ts = replicate (length ts) KILL"
  by (induction ts) simp_all

lemma invocations_signal:
  "invocations v (SignalHandler i) ts =
     map (\<lambda>t. if v (getSyscallArgument t i) then CONTINUE else KILL) ts"
  by (induction ts) simp_all

lemma invocations_arch:
  "invocations v ArchDetectHandler ts = replicate (length ts) CONTINUE"
  by (induction ts) simp_all

lemma evaluate_append:
  "evaluate (xs @ ys) d name args = evaluate xs (evaluate ys d name args) name args"
  by (induction xs) simp_all

lemma evaluate_rulesFor:
  "evaluate rs d name args = evaluate (rulesFor name rs) d name args"
  by (induction rs) (simp_all add: rulesFor_def matches_def)

lemmas groups_eq = executionControlRules_eq memoryManagementRules_eq systemInformationRules_eq
  fileSystemAccessRules_eq inputOutputRules_eq

lemma rulesFor_open:
  "rulesFor ''open'' (getRules (DefaultPolicy af True)) =
     [SeccompRule ''open'' ActionAllow (Some (Eq (MaskedArg 1 O_RDWR) 0))]"
  by (simp add: getRules_DefaultPolicy rulesFor_def groups_eq)

lemma rulesFor_lseek:
  "rulesFor ''lseek'' (getRules (DefaultPolicy af ro)) =
     [SeccompRule ''lseek'' (ActionErrno ESPIPE) (Some (Le (SyscallArg 0) 2)),
      SeccompRule ''lseek'' ActionAllow (Some (Ge (SyscallArg 0) 3))]"
  by (simp add: getRules_DefaultPolicy rulesFor_def groups_eq)

lemma rulesFor_llseek:
  "rulesFor ''_llseek'' (getRules (DefaultPolicy af ro)) =
     [SeccompRule ''_llseek'' (ActionErrno ESPIPE) (Some (Le (SyscallArg 0) 2)),
      SeccompRule ''_llseek'' ActionAllow (Some (Ge (SyscallArg 0) 3))]"
  by (simp add: getRules_DefaultPolicy rulesFor_def groups_eq)

lemma rulesFor_write:
  "rulesFor ''write'' (getRules (DefaultPolicy af ro)) =
     [SeccompRule ''write'' ActionAllow (Some (Gt (SyscallArg 0) 0))]"
  by (simp add: getRules_DefaultPolicy rulesFor_def groups_eq)

lemma rulesFor_writev:
  "rulesFor ''writev'' (getRules (DefaultPolicy af ro)) =
     [SeccompRule ''writev'' ActionAllow (Some (Gt (SyscallArg 0) 0))]"
  by (simp add: getRules_DefaultPolicy rulesFor_def groups_eq)

lemma rulesFor_ioctl:
  "rulesFor ''ioctl'' (getRules (DefaultPolicy af ro)) =
     [SeccompRule ''ioctl'' (ActionErrno ENOTTY) None]"
  by (simp add: getRules_DefaultPolicy rulesFor_def groups_eq)

lemma rulesFor_signals:
  "rulesFor ''kill'' (getRules (DefaultPolicy af ro)) =
     [SeccompRule ''kill'' (ActionTrace (Some (SignalHandler 1))) None]"
  "rulesFor ''tkill'' (getRules (DefaultPolicy af ro)) =
     [SeccompRule ''tkill'' (ActionTrace (Some (SignalHandler 1))) None]"
  "rulesFor ''tgkill'' (getRules (DefaultPolicy af ro)) =
     [SeccompRule ''tgkill'' (ActionTrace (Some (SignalHandler 2))) None]"
  by (simp_all add: getRules_DefaultPolicy rulesFor_def groups_eq)

lemma rulesFor_set_thread_area:
  "rulesFor ''set_thread_area'' (getRules (DefaultPolicy af ro)) =
     [SeccompRule ''set_thread_area'' (ActionTrace (Some ArchDetectHandler)) None]"
  by (simp_all add: getRules_DefaultPolicy rulesFor_def groups_eq)

lemma word_le2_iff: "(x::reg_t) \<le> 2 \<longleftrightarrow> \<not> 3 \<le> x"
  by (auto simp add: word_le_nat_alt)

lemma and1_cases: "(x::reg_t) AND 1 = 0 \<or> x AND 1 = 1"
  by (cases "odd x") (simp_all add: and_one_eq mod_2_eq_odd)

lemma and3_split: "(x::reg_t) AND 3 = (x AND 2) OR (x AND 1)"
  by (simp flip: bit.conj_disj_distrib)

lemma and3_and2: "((x::reg_t) AND 3) AND 2 = x AND 2"
  by (simp add: and.assoc)

lemma rdwr_clear_iff:
  "((x::reg_t) AND O_RDWR = 0) = (x AND O_ACCMODE = O_RDONLY \<or> x AND O_ACCMODE = O_WRONLY)"
  unfolding O_RDWR_def O_ACCMODE_def O_RDONLY_def O_WRONLY_def
proof
  assume "x AND 2 = 0"
  then have "x AND 3 = x AND 1" by (simp add: and3_split)
  then show "x AND 3 = 0 \<or> x AND 3 = 1" using and1_cases [of x] by simp
next
  assume "x AND 3 = 0 \<or> x AND 3 = 1"
  then have "(x AND 3) AND 2 = 0" by auto
  then show "x AND 2 = 0" by (simp only: and3_and2)
qed

lemma O_RDWR_nonzero: "O_RDWR \<noteq> 0"
  by (simp add: O_RDWR_def)

subsection \<open>What the two switches leave alone\<close>

lemma evaluate_find:
  "evaluate rs d name args =
     (case find (\<lambda>r. matches r name args) rs of None \<Rightarrow> d | Some r \<Rightarrow> action r)"
  by (induction rs) simp_all

lemma rulesFor_filter_other:
  "name \<notin> S \<Longrightarrow> rulesFor name (filter (\<lambda>r. syscallName r \<notin> S) rs) = rulesFor name rs"
  unfolding rulesFor_def filter_filter by (rule filter_cong) auto

lemma fs_frame:
  "filter (\<lambda>r. syscallName r \<notin>
        {''open'', ''unlink'', ''unlinkat'', ''symlink'', ''mkdir'', ''fsetxattr''})
      (getRules (DefaultPolicy af True)) =
   filter (\<lambda>r. syscallName r \<notin>
        {''open'', ''unlink'', ''unlinkat'', ''symlink'', ''mkdir'', ''fsetxattr''})
      (getRules (DefaultPolicy af False))"
  by (simp add: getRules_DefaultPolicy groups_eq)

lemma fork_frame:
  "filter (\<lambda>r. syscallName r \<noteq> ''fork'') (getRules (DefaultPolicy True ro)) =
     getRules (DefaultPolicy False ro)"
  by (simp add: getRules_DefaultPolicy groups_eq)

lemma fs_common:
  "filter (\<lambda>r. syscallName r \<notin>
        {''open'', ''unlink'', ''unlinkat'', ''symlink'', ''mkdir'', ''fsetxattr''})
      (fileSystemAccessRules ro) =
   map (\<lambda>s. SeccompRule s ActionAllow None)
       [''stat'', ''stat64'', ''fstat'', ''fstat64'', ''lstat'', ''lstat64'',
        ''listxattr'', ''llistxattr'', ''flistxattr'', ''readlink'', ''access'', ''getdents'']
     @ [SeccompRule ''close'' ActionAllow (Some (Ge (SyscallArg 0) 3))]"
  by (simp add: fileSystemAccessRules_eq)

lemma rulesFor_fork:
  "rulesFor ''fork'' (getRules (DefaultPolicy af ro)) =
     (if af then [SeccompRule ''fork'' ActionAllow None] else [])"
  by (simp add: getRules_DefaultPolicy rulesFor_def groups_eq)

lemma evaluate_frame:
  assumes "filter (\<lambda>r. syscallName r \<notin> S) xs = filter (\<lambda>r. syscallName r \<notin> S) ys"
    and "name \<notin> S"
  shows "evaluate xs d name args = evaluate ys d name args"
proof -
  have "rulesFor name xs = rulesFor name ys"
    using assms rulesFor_filter_other [of name S xs] rulesFor_filter_other [of name S ys]
    by simp
  then show ?thesis
    using evaluate_rulesFor [of xs d name args] evaluate_rulesFor [of ys d name args]
    by simp
qed

lemma fork_frame_set:
  "filter (\<lambda>r. syscallName r \<notin> {''fork''}) (getRules (DefaultPolicy True ro)) =
   filter (\<lambda>r. syscallName r \<notin> {''fork''}) (getRules (DefaultPolicy False ro))"
  by (simp add: getRules_DefaultPolicy groups_eq)

subsection \<open>What a call of a handler leaves of the rules\<close>

lemma resetHandler_callHandler:
  "resetHandler (snd (callHandler v h t)) = resetHandler h"
  by (cases h) simp_all

lemma resetRule_invokeRule: "resetRule (invokeRule v t r) = resetRule r"
  by (induction v t r rule: invokeRule.induct) (simp_all add: resetHandler_callHandler)

lemma resetRule_perform:
  "map resetRule (rules (perform v p operation)) = map resetRule (rules p)"
  by (cases operation) (simp_all add: map_update resetRule_invokeRule list_update_same_conv)

lemma resetRule_performAll:
  "map resetRule (rules (performAll v p ops)) = map resetRule (rules p)"
  unfolding performAll_def
  by (induction ops arbitrary: p) (simp_all add: resetRule_perform)

lemma resetRule_DefaultPolicy:
  "map resetRule (getRules (DefaultPolicy af ro)) = getRules (DefaultPolicy af ro)"
  by (simp add: getRules_DefaultPolicy groups_eq)

lemma syscallName_resetRule: "syscallName (resetRule r) = syscallName r"
  by (induction r rule: resetRule.induct) simp_all

lemma resetRule_id:
  "action (resetRule r) \<noteq> ActionTrace (Some (ExecveHandler False)) \<Longrightarrow> resetRule r = r"
proof (induction r rule: resetRule.induct)
  case (1 name h f)
  then show ?case by (cases h) simp_all
qed simp_all

lemma only_execve_has_state:
  "\<forall>r \<in> set (getRules (DefaultPolicy af ro)).
     syscallName r \<noteq> ''execve'' \<longrightarrow> action r \<noteq> ActionTrace (Some (ExecveHandler False))"
  by (simp add: getRules_DefaultPolicy groups_eq)

lemma filter_reset:
  assumes "map resetRule xs = ys"
    and "\<forall>r \<in> set ys. syscallName r \<noteq> n \<longrightarrow> action r \<noteq> ActionTrace (Some (ExecveHandler False))"
  shows "filter (\<lambda>r. syscallName r \<noteq> n) xs = filter (\<lambda>r. syscallName r \<noteq> n) ys"
  using assms
proof (induction xs arbitrary: ys)
  case Nil
  then show ?case by simp
next
  case (Cons x xs)
  then obtain y ys' where ys: "ys = y # ys'" "resetRule x = y" "map resetRule xs = ys'"
    by auto
  have tl: "filter (\<lambda>r. syscallName r \<noteq> n) xs = filter (\<lambda>r. syscallName r \<noteq> n) ys'"
    using Cons.IH [OF ys(3)] Cons.prems(2) ys(1) by simp
  have nm: "syscallName y = syscallName x"
    using ys(2) syscallName_resetRule [of x] by simp
  show ?case
  proof (cases "syscallName x = n")
    case True
    then show ?thesis using tl nm ys(1) by simp
  next
    case False
    then have "action y \<noteq> ActionTrace (Some (ExecveHandler False))"
      using Cons.prems(2) ys(1) nm by simp
    then have "x = y" using resetRule_id [of x] ys(2) by simp
    then show ?thesis using tl ys(1) by simp
  qed
qed

lemma reset_to_execve:
  "resetRule r = SeccompRule ''execve'' (ActionTrace (Some (ExecveHandler False))) None \<Longrightarrow>
   \<exists>b. r = SeccompRule ''execve'' (ActionTrace (Some (ExecveHandler b))) None"
proof (induction r rule: resetRule.induct)
  case (1 name h f)
  then show ?case by (cases h) simp_all
qed simp_all

lemma rulesFor_map_reset:
  "rulesFor n (map resetRule xs) = map resetRule (rulesFor n xs)"
  by (simp add: rulesFor_def filter_map comp_def syscallName_resetRule)

subsection \<open>The model on concrete inputs\<close>

lemma example_write_stdout:
  "outcome (evaluate (getRules (DefaultPolicy True True)) (ActionErrno EBADF) ''write''
     (argsOf [1, 4096, 12])) = Proceeds"
  by code_simp

lemma example_write_stdin:
  "outcome (evaluate (getRules (DefaultPolicy True True)) (ActionErrno EBADF) ''write''
     (argsOf [0, 4096, 12])) = FailsWith 9"
  by code_simp

lemma example_open_access_modes:
  "map (\<lambda>flags. evaluate (getRules (DefaultPolicy True True)) ActionKill ''open''
         (argsOf [4096, flags]))
     [O_RDONLY, O_WRONLY, O_RDWR, 577, 578] =
   [ActionAllow, ActionAllow, ActionKill, ActionAllow, ActionKill]"
  by code_simp

lemma example_execve_two_tracees:
  "invocations signalUpTo64 (ExecveHandler False) [traceeOf [1], traceeOf [2], traceeOf [1]] =
     [CONTINUE, KILL, KILL]"
  by code_simp

lemma example_kill_signals:
  "invocations signalUpTo64 (SignalHandler 1) [traceeOf [100, 9], traceeOf [100, 65], traceeOf [100, 15]] =
     [CONTINUE, KILL, CONTINUE]"
  by code_simp

lemma example_lseek:
  "map (\<lambda>fd. evaluate (getRules (DefaultPolicy True True)) ActionKill ''lseek'' (argsOf [fd, 0, 0]))
     [0, 2, 3, 18446744073709551615] =
   [ActionErrno 29, ActionErrno 29, ActionAllow, ActionAllow]"
  by code_simp

lemma example_length: "length (getRules (DefaultPolicy True True)) = 77 \<and> length (getRules (DefaultPolicy False False)) = 75"
  by code_simp

subsection \<open>The claims\<close>

text \<open>
  C1: the policy has exactly one \<^verbatim>\<open>execve\<close> rule, a trace rule whose handler starts
  with \<open>executed = false\<close>. Over any non-empty sequence of calls of that one handler
  instance, whatever tracee each call is for, the first call returns \<open>CONTINUE\<close> and
  every later call returns \<open>KILL\<close>: the flag belongs to the handler of the rule, not to
  a tracee.
\<close>

theorem execve_handler_once:
  "rulesFor ''execve'' (getRules (DefaultPolicy allowFork readOnly)) =
     [SeccompRule ''execve'' (ActionTrace (Some (ExecveHandler False))) None]
   \<and> invocations isSignalValid (ExecveHandler False) (tracee # tracees) =
       CONTINUE # replicate (length tracees) KILL"
  by (simp add: rulesFor_execve invocations_executed)

text \<open>
  C2: \<^verbatim>\<open>kill\<close> and \<^verbatim>\<open>tkill\<close> each have exactly one rule, a trace rule whose handler
  checks argument slot 1; \<^verbatim>\<open>tgkill\<close> has one whose handler checks slot 2. A call of the
  handler returns \<open>KILL\<close> exactly when \<^verbatim>\<open>isSignalValid\<close> rejects the value read from
  that slot of the tracee of this call, and \<open>CONTINUE\<close> otherwise; the handler keeps no
  state, so in any sequence of calls each verdict depends on the tracee of that call only.
\<close>

theorem signal_handler_kill_iff_invalid:
  "rulesFor ''kill'' (getRules (DefaultPolicy allowFork readOnly)) =
     [SeccompRule ''kill'' (ActionTrace (Some (SignalHandler 1))) None]
   \<and> rulesFor ''tkill'' (getRules (DefaultPolicy allowFork readOnly)) =
     [SeccompRule ''tkill'' (ActionTrace (Some (SignalHandler 1))) None]
   \<and> rulesFor ''tgkill'' (getRules (DefaultPolicy allowFork readOnly)) =
     [SeccompRule ''tgkill'' (ActionTrace (Some (SignalHandler 2))) None]
   \<and> (fst (callHandler isSignalValid (SignalHandler i) tracee) = KILL) =
       (\<not> isSignalValid (getSyscallArgument tracee i))
   \<and> (fst (callHandler isSignalValid (SignalHandler i) tracee) = CONTINUE) =
       isSignalValid (getSyscallArgument tracee i)
   \<and> snd (callHandler isSignalValid (SignalHandler i) tracee) = SignalHandler i
   \<and> invocations isSignalValid (SignalHandler i) tracees =
       map (\<lambda>t. if isSignalValid (getSyscallArgument t i) then CONTINUE else KILL) tracees"
  by (simp add: rulesFor_signals invocations_signal)


text \<open>
  C3: with the read-only switch on, \<^verbatim>\<open>open\<close> has exactly one rule, Allow under
  \<open>(argument[1] & O_RDWR) == 0\<close>. An invocation is allowed exactly when the \<open>O_RDWR\<close> bit
  of its flags is clear, which is exactly when its access mode is read-only or write-only;
  any flags with the \<open>O_RDWR\<close> bit set match no rule and get the default action.
\<close>

theorem open_readonly_masked_match:
  "rulesFor ''open'' (getRules (DefaultPolicy allowFork True)) =
     [SeccompRule ''open'' ActionAllow (Some (Eq (MaskedArg 1 O_RDWR) 0))]
   \<and> evaluate (getRules (DefaultPolicy allowFork True)) defaultAction ''open'' args =
       (if args 1 AND O_RDWR = 0 then ActionAllow else defaultAction)
   \<and> evaluate (getRules (DefaultPolicy allowFork True)) defaultAction ''open'' args =
       (if args 1 AND O_ACCMODE = O_RDONLY \<or> args 1 AND O_ACCMODE = O_WRONLY
        then ActionAllow else defaultAction)
   \<and> evaluate (getRules (DefaultPolicy allowFork True)) defaultAction ''open''
         (args(1 := flags OR O_RDWR)) = defaultAction"
proof -
  have e: "evaluate (getRules (DefaultPolicy allowFork True)) defaultAction ''open'' a =
       (if a 1 AND O_RDWR = 0 then ActionAllow else defaultAction)" for a
    by (subst evaluate_rulesFor) (simp add: rulesFor_open matches_def)
  show ?thesis
    using e [of args] e [of "args(1 := flags OR O_RDWR)"]
    by (simp add: rulesFor_open rdwr_clear_iff O_RDWR_nonzero)
qed

text \<open>
  C4: \<^verbatim>\<open>write\<close> and \<^verbatim>\<open>writev\<close> each have exactly one rule, Allow under
  \<open>argument[0] > 0\<close>. With the default action \<open>ActionErrno EBADF\<close>, an invocation on
  descriptor 1 proceeds and an invocation on descriptor 0 fails with \<open>EBADF\<close> without
  being executed.
\<close>

theorem write_descriptor_guard:
  "rulesFor ''write'' (getRules (DefaultPolicy allowFork readOnly)) =
     [SeccompRule ''write'' ActionAllow (Some (Gt (SyscallArg 0) 0))]
   \<and> rulesFor ''writev'' (getRules (DefaultPolicy allowFork readOnly)) =
     [SeccompRule ''writev'' ActionAllow (Some (Gt (SyscallArg 0) 0))]
   \<and> outcome (evaluate (getRules (DefaultPolicy allowFork readOnly)) (ActionErrno EBADF)
        ''write'' (args(0 := 1))) = Proceeds
   \<and> outcome (evaluate (getRules (DefaultPolicy allowFork readOnly)) (ActionErrno EBADF)
        ''write'' (args(0 := 0))) = FailsWith EBADF
   \<and> outcome (evaluate (getRules (DefaultPolicy allowFork readOnly)) (ActionErrno EBADF)
        ''writev'' (args(0 := 1))) = Proceeds
   \<and> outcome (evaluate (getRules (DefaultPolicy allowFork readOnly)) (ActionErrno EBADF)
        ''writev'' (args(0 := 0))) = FailsWith EBADF"
proof -
  have w: "evaluate (getRules (DefaultPolicy allowFork readOnly)) d ''write'' a =
       (if a 0 > 0 then ActionAllow else d)" for a d
    by (subst evaluate_rulesFor) (simp add: rulesFor_write matches_def)
  have wv: "evaluate (getRules (DefaultPolicy allowFork readOnly)) d ''writev'' a =
       (if a 0 > 0 then ActionAllow else d)" for a d
    by (subst evaluate_rulesFor) (simp add: rulesFor_writev matches_def)
  show ?thesis
    by (simp add: w wv rulesFor_write rulesFor_writev)
qed

text \<open>
  C5: \<^verbatim>\<open>set_thread_area\<close> has exactly one rule, a trace rule whose handler returns
  \<open>CONTINUE\<close> for every tracee and leaves itself unchanged; it does not look at the
  tracee, and no sequence of calls ever yields \<open>KILL\<close>.
\<close>

theorem arch_probe_always_continue:
  "rulesFor ''set_thread_area'' (getRules (DefaultPolicy allowFork readOnly)) =
     [SeccompRule ''set_thread_area'' (ActionTrace (Some ArchDetectHandler)) None]
   \<and> callHandler isSignalValid ArchDetectHandler tracee = (CONTINUE, ArchDetectHandler)
   \<and> invocations isSignalValid ArchDetectHandler tracees = replicate (length tracees) CONTINUE"
  by (simp add: rulesFor_set_thread_area invocations_arch)

text \<open>
  C6: each builder maps a policy to the same policy extended at the end by its own group
  of rules, which depends on the builder's switch only. The rules of the default policy
  are the groups in the order of the constructor's calls: execution control, memory
  management, system information, filesystem access, input/output. Under first-match-wins
  evaluation a later group is consulted only when no rule of an earlier group matches.
\<close>

theorem default_policy_group_order:
  "rules (addExecutionControlRules allowFork p) = rules p @ executionControlRules allowFork
   \<and> rules (addMemoryManagementRules p) = rules p @ memoryManagementRules
   \<and> rules (addSystemInformationRules p) = rules p @ systemInformationRules
   \<and> rules (addFileSystemAccessRules readOnly p) = rules p @ fileSystemAccessRules readOnly
   \<and> rules (addInputOutputRules p) = rules p @ inputOutputRules
   \<and> getRules (DefaultPolicy allowFork readOnly) =
       executionControlRules allowFork @ memoryManagementRules @ systemInformationRules
         @ fileSystemAccessRules readOnly @ inputOutputRules
   \<and> evaluate (getRules (DefaultPolicy allowFork readOnly)) defaultAction name args =
       (case find (\<lambda>r. matches r name args) (executionControlRules allowFork) of
          Some r \<Rightarrow> action r
        | None \<Rightarrow>
       (case find (\<lambda>r. matches r name args) memoryManagementRules of
          Some r \<Rightarrow> action r
        | None \<Rightarrow>
       (case find (\<lambda>r. matches r name args) systemInformationRules of
          Some r \<Rightarrow> action r
        | None \<Rightarrow>
       (case find (\<lambda>r. matches r name args) (fileSystemAccessRules readOnly) of
          Some r \<Rightarrow> action r
        | None \<Rightarrow>
       (case find (\<lambda>r. matches r name args) inputOutputRules of
          Some r \<Rightarrow> action r
        | None \<Rightarrow> defaultAction)))))"
proof -
  have "evaluate (getRules (DefaultPolicy allowFork readOnly)) defaultAction name args =
       evaluate (executionControlRules allowFork)
         (evaluate memoryManagementRules
           (evaluate systemInformationRules
             (evaluate (fileSystemAccessRules readOnly)
               (evaluate inputOutputRules defaultAction name args)
               name args)
             name args)
           name args)
         name args"
    by (simp only: getRules_DefaultPolicy evaluate_append)
  then show ?thesis
    by (simp only: evaluate_find rules_addExecutionControlRules rules_addMemoryManagementRules
        rules_addSystemInformationRules rules_addFileSystemAccessRules
        rules_addInputOutputRules getRules_DefaultPolicy simp_thms)
qed

text \<open>
  C7: the read-only switch changes only rules of \<^verbatim>\<open>open\<close>, \<^verbatim>\<open>unlink\<close>,
  \<^verbatim>\<open>unlinkat\<close>, \<^verbatim>\<open>symlink\<close>, \<^verbatim>\<open>mkdir\<close> and \<^verbatim>\<open>fsetxattr\<close>: all
  other rules of the policy, in their order, are the same for both values, and the
  filesystem builder's stat-family and \<^verbatim>\<open>close\<close> rules are the same. The allow-fork
  switch changes only whether the one Allow rule of \<^verbatim>\<open>fork\<close> is present. For every other
  syscall name the registered rules and the result of evaluation are the same for both
  values of a switch.
\<close>

theorem toggles_frame:
  "filter (\<lambda>r. syscallName r \<notin>
        {''open'', ''unlink'', ''unlinkat'', ''symlink'', ''mkdir'', ''fsetxattr''})
      (getRules (DefaultPolicy allowFork True)) =
   filter (\<lambda>r. syscallName r \<notin>
        {''open'', ''unlink'', ''unlinkat'', ''symlink'', ''mkdir'', ''fsetxattr''})
      (getRules (DefaultPolicy allowFork False))
   \<and> filter (\<lambda>r. syscallName r \<notin>
        {''open'', ''unlink'', ''unlinkat'', ''symlink'', ''mkdir'', ''fsetxattr''})
      (fileSystemAccessRules readOnly) =
     map (\<lambda>s. SeccompRule s ActionAllow None)
       [''stat'', ''stat64'', ''fstat'', ''fstat64'', ''lstat'', ''lstat64'',
        ''listxattr'', ''llistxattr'', ''flistxattr'', ''readlink'', ''access'', ''getdents'']
     @ [SeccompRule ''close'' ActionAllow (Some (Ge (SyscallArg 0) 3))]
   \<and> filter (\<lambda>r. syscallName r \<noteq> ''fork'') (getRules (DefaultPolicy True readOnly)) =
       getRules (DefaultPolicy False readOnly)
   \<and> rulesFor ''fork'' (getRules (DefaultPolicy allowFork readOnly)) =
       (if allowFork then [SeccompRule ''fork'' ActionAllow None] else [])
   \<and> (name \<notin> {''open'', ''unlink'', ''unlinkat'', ''symlink'', ''mkdir'', ''fsetxattr''} \<longrightarrow>
        rulesFor name (getRules (DefaultPolicy allowFork True)) =
          rulesFor name (getRules (DefaultPolicy allowFork False))
        \<and> evaluate (getRules (DefaultPolicy allowFork True)) defaultAction name args =
          evaluate (getRules (DefaultPolicy allowFork False)) defaultAction name args)
   \<and> (name \<noteq> ''fork'' \<longrightarrow>
        rulesFor name (getRules (DefaultPolicy True readOnly)) =
          rulesFor name (getRules (DefaultPolicy False readOnly))
        \<and> evaluate (getRules (DefaultPolicy True readOnly)) defaultAction name args =
          evaluate (getRules (DefaultPolicy False readOnly)) defaultAction name args)"
proof (intro conjI impI)
  let ?S = "{''open'', ''unlink'', ''unlinkat'', ''symlink'', ''mkdir'', ''fsetxattr''}"
  show "filter (\<lambda>r. syscallName r \<notin> ?S) (getRules (DefaultPolicy allowFork True)) =
        filter (\<lambda>r. syscallName r \<notin> ?S) (getRules (DefaultPolicy allowFork False))"
    by (rule fs_frame)
  show "filter (\<lambda>r. syscallName r \<notin> ?S) (fileSystemAccessRules readOnly) =
     map (\<lambda>s. SeccompRule s ActionAllow None)
       [''stat'', ''stat64'', ''fstat'', ''fstat64'', ''lstat'', ''lstat64'',
        ''listxattr'', ''llistxattr'', ''flistxattr'', ''readlink'', ''access'', ''getdents'']
     @ [SeccompRule ''close'' ActionAllow (Some (Ge (SyscallArg 0) 3))]"
    by (rule fs_common)
  show "filter (\<lambda>r. syscallName r \<noteq> ''fork'') (getRules (DefaultPolicy True readOnly)) =
       getRules (DefaultPolicy False readOnly)"
    by (rule fork_frame)
  show "rulesFor ''fork'' (getRules (DefaultPolicy allowFork readOnly)) =
       (if allowFork then [SeccompRule ''fork'' ActionAllow None] else [])"
    by (rule rulesFor_fork)
next
  let ?S = "{''open'', ''unlink'', ''unlinkat'', ''symlink'', ''mkdir'', ''fsetxattr''}"
  assume n: "name \<notin> ?S"
  show "rulesFor name (getRules (DefaultPolicy allowFork True)) =
          rulesFor name (getRules (DefaultPolicy allowFork False))"
    using rulesFor_filter_other [OF n, of "getRules (DefaultPolicy allowFork True)"]
      rulesFor_filter_other [OF n, of "getRules (DefaultPolicy allowFork False)"]
    by (simp only: fs_frame)
  show "evaluate (getRules (DefaultPolicy allowFork True)) defaultAction name args =
          evaluate (getRules (DefaultPolicy allowFork False)) defaultAction name args"
    by (rule evaluate_frame [OF fs_frame n])
next
  assume "name \<noteq> ''fork''"
  then have n: "name \<notin> {''fork''}" by simp
  show "rulesFor name (getRules (DefaultPolicy True readOnly)) =
          rulesFor name (getRules (DefaultPolicy False readOnly))"
    using rulesFor_filter_other [OF n, of "getRules (DefaultPolicy True readOnly)"]
      rulesFor_filter_other [OF n, of "getRules (DefaultPolicy False readOnly)"]
    by (simp only: fork_frame_set)
  show "evaluate (getRules (DefaultPolicy True readOnly)) defaultAction name args =
          evaluate (getRules (DefaultPolicy False readOnly)) defaultAction name args"
    by (rule evaluate_frame [OF fork_frame_set n])
qed

theorem toggles_frame_witness:
  "''close'' \<notin> {''open'', ''unlink'', ''unlinkat'', ''symlink'', ''mkdir'', ''fsetxattr''}
   \<and> ''close'' \<noteq> ''fork''
   \<and> evaluate (getRules (DefaultPolicy True True)) ActionKill ''close'' (argsOf [5]) =
       evaluate (getRules (DefaultPolicy True False)) ActionKill ''close'' (argsOf [5])
   \<and> evaluate (getRules (DefaultPolicy True True)) ActionKill ''close'' (argsOf [5]) =
       evaluate (getRules (DefaultPolicy False True)) ActionKill ''close'' (argsOf [5])"
proof -
  have a: "''close'' \<notin> {''open'', ''unlink'', ''unlinkat'', ''symlink'', ''mkdir'', ''fsetxattr''}"
    by simp
  have b: "''close'' \<noteq> ''fork''"
    by simp
  show ?thesis
    using toggles_frame [of True True "''close''" ActionKill "argsOf [5]"] a b
    by blast
qed

text \<open>
  C8, as amended: \<^verbatim>\<open>getRules\<close> only reads the vector. After any sequence of
  \<^verbatim>\<open>getRules\<close> calls and handler calls on a constructed policy, no rule has been added,
  removed or reordered, and no rule has changed but for the captured state of a handler:
  with that state reset the vector is the constructed one, every rule of a syscall other
  than \<^verbatim>\<open>execve\<close> is unchanged, and the one \<^verbatim>\<open>execve\<close> rule differs at most in its
  \<open>executed\<close> flag.
\<close>

theorem rules_stable_up_to_handler_state:
  "perform isSignalValid p GetRules = p
   \<and> length (getRules (performAll isSignalValid (DefaultPolicy allowFork readOnly) ops)) =
       length (getRules (DefaultPolicy allowFork readOnly))
   \<and> map resetRule (getRules (performAll isSignalValid (DefaultPolicy allowFork readOnly) ops)) =
       getRules (DefaultPolicy allowFork readOnly)
   \<and> filter (\<lambda>r. syscallName r \<noteq> ''execve'')
        (getRules (performAll isSignalValid (DefaultPolicy allowFork readOnly) ops)) =
      filter (\<lambda>r. syscallName r \<noteq> ''execve'') (getRules (DefaultPolicy allowFork readOnly))
   \<and> (\<exists>b. rulesFor ''execve''
        (getRules (performAll isSignalValid (DefaultPolicy allowFork readOnly) ops)) =
        [SeccompRule ''execve'' (ActionTrace (Some (ExecveHandler b))) None])"
proof -
  let ?init = "DefaultPolicy allowFork readOnly"
  let ?final = "performAll isSignalValid ?init ops"
  have m: "map resetRule (getRules ?final) = getRules ?init"
    using resetRule_performAll [where v = isSignalValid and p = ?init and ops = ops]
      resetRule_DefaultPolicy [where af = allowFork and ro = readOnly]
    by (simp add: getRules_def)
  have l: "length (getRules ?final) = length (getRules ?init)"
    using arg_cong [OF m, of length] by simp
  have f: "filter (\<lambda>r. syscallName r \<noteq> ''execve'') (getRules ?final) =
      filter (\<lambda>r. syscallName r \<noteq> ''execve'') (getRules ?init)"
    by (rule filter_reset [OF m only_execve_has_state])
  have "map resetRule (rulesFor ''execve'' (getRules ?final)) =
        [SeccompRule ''execve'' (ActionTrace (Some (ExecveHandler False))) None]"
    using arg_cong [OF m, of "rulesFor ''execve''"]
    by (simp only: rulesFor_map_reset rulesFor_execve)
  then obtain r where r: "rulesFor ''execve'' (getRules ?final) = [r]"
    "resetRule r = SeccompRule ''execve'' (ActionTrace (Some (ExecveHandler False))) None"
    by auto
  then have e: "\<exists>b. rulesFor ''execve'' (getRules ?final) =
        [SeccompRule ''execve'' (ActionTrace (Some (ExecveHandler b))) None]"
    using reset_to_execve [OF r(2)] by auto
  show ?thesis using m l f e by simp
qed

text \<open>
  The claim as stated fails: one call of the handler of the \<^verbatim>\<open>execve\<close> rule (position
  15 of the vector) sets its \<open>executed\<close> flag, so the rules \<^verbatim>\<open>getRules\<close> returns
  afterwards are not the rules it returned before.
\<close>

theorem execve_trap_modifies_rule:
  "getRules (performAll signalUpTo64 (DefaultPolicy True True) [Trap 15 (traceeOf [])]) \<noteq>
   getRules (DefaultPolicy True True)"
  by code_simp

text \<open>
  C9: \<^verbatim>\<open>lseek\<close> and \<^verbatim>\<open>_llseek\<close> each have exactly two rules, with predicates
  \<open>argument[0] <= 2\<close> and \<open>argument[0] >= 3\<close>. For every 64-bit descriptor value exactly
  one of the two predicates holds, so exactly one rule of the policy matches: descriptors 0
  to 2 fail with \<open>ESPIPE\<close>, larger ones are allowed, and the default action is never
  the result.
\<close>

theorem lseek_rules_partition:
  "rulesFor ''lseek'' (getRules (DefaultPolicy allowFork readOnly)) =
     [SeccompRule ''lseek'' (ActionErrno ESPIPE) (Some (Le (SyscallArg 0) 2)),
      SeccompRule ''lseek'' ActionAllow (Some (Ge (SyscallArg 0) 3))]
   \<and> rulesFor ''_llseek'' (getRules (DefaultPolicy allowFork readOnly)) =
     [SeccompRule ''_llseek'' (ActionErrno ESPIPE) (Some (Le (SyscallArg 0) 2)),
      SeccompRule ''_llseek'' ActionAllow (Some (Ge (SyscallArg 0) 3))]
   \<and> evalFilter (Le (SyscallArg 0) 2) args \<noteq> evalFilter (Ge (SyscallArg 0) 3) args
   \<and> length (filter (\<lambda>r. matches r ''lseek'' args)
        (getRules (DefaultPolicy allowFork readOnly))) = 1
   \<and> length (filter (\<lambda>r. matches r ''_llseek'' args)
        (getRules (DefaultPolicy allowFork readOnly))) = 1
   \<and> evaluate (getRules (DefaultPolicy allowFork readOnly)) defaultAction ''lseek'' args =
       (if args 0 \<le> 2 then ActionErrno ESPIPE else ActionAllow)
   \<and> evaluate (getRules (DefaultPolicy allowFork readOnly)) defaultAction ''_llseek'' args =
       (if args 0 \<le> 2 then ActionErrno ESPIPE else ActionAllow)"
proof -
  let ?rs = "getRules (DefaultPolicy allowFork readOnly)"
  have m: "filter (\<lambda>r. matches r name args) rs =
           filter (\<lambda>r. matches r name args) (rulesFor name rs)" for name rs
    by (induction rs) (simp_all add: rulesFor_def matches_def)
  have c1: "length (filter (\<lambda>r. matches r ''lseek'' args) ?rs) = 1"
    by (subst m) (simp add: rulesFor_lseek matches_def word_le2_iff)
  have c2: "length (filter (\<lambda>r. matches r ''_llseek'' args) ?rs) = 1"
    by (subst m) (simp add: rulesFor_llseek matches_def word_le2_iff)
  have e1: "evaluate ?rs defaultAction ''lseek'' args =
       (if args 0 \<le> 2 then ActionErrno ESPIPE else ActionAllow)"
    by (subst evaluate_rulesFor) (simp add: rulesFor_lseek matches_def word_le2_iff)
  have e2: "evaluate ?rs defaultAction ''_llseek'' args =
       (if args 0 \<le> 2 then ActionErrno ESPIPE else ActionAllow)"
    by (subst evaluate_rulesFor) (simp add: rulesFor_llseek matches_def word_le2_iff)
  have d: "evalFilter (Le (SyscallArg 0) 2) args \<noteq> evalFilter (Ge (SyscallArg 0) 3) args"
    by (simp add: word_le2_iff)
  show ?thesis
    using c1 c2 e1 e2 d by (simp only: rulesFor_lseek rulesFor_llseek simp_thms)
qed

text \<open>
  C10: \<^verbatim>\<open>ioctl\<close> has exactly one rule, without predicate and with action
  \<open>ActionErrno ENOTTY\<close>. For all arguments and every default action, an invocation is
  not executed and fails with \<open>ENOTTY\<close>.
\<close>

theorem ioctl_always_enotty:
  "rulesFor ''ioctl'' (getRules (DefaultPolicy allowFork readOnly)) =
     [SeccompRule ''ioctl'' (ActionErrno ENOTTY) None]
   \<and> evaluate (getRules (DefaultPolicy allowFork readOnly)) defaultAction ''ioctl'' args =
       ActionErrno ENOTTY
   \<and> outcome (evaluate (getRules (DefaultPolicy allowFork readOnly)) defaultAction ''ioctl'' args)
       = FailsWith ENOTTY"
proof -
  have "evaluate (getRules (DefaultPolicy allowFork readOnly)) defaultAction ''ioctl'' args =
       ActionErrno ENOTTY"
    by (subst evaluate_rulesFor) (simp add: rulesFor_ioctl matches_def)
  then show ?thesis by (simp add: rulesFor_ioctl)
qed

end
